theory Spec2Isabelle
  imports Complex_Main
begin

section \<open>The synchronization engine (hook useSyncLogic)\<close>

text \<open>
  The hook keeps three React state cells (\<open>syncState\<close>, \<open>url\<close>, \<open>isPlaying\<close>), three
  mutable refs (\<open>syncLock\<close>, \<open>isRemoteAction\<close>, \<open>pendingSync\<close>) and one ref for the
  debounce timer. Every handler runs to completion; it is modelled as a function from
  the engine state to the engine state. Messages handed to \<open>trigger\<close> are appended to
  an outbox, \<open>setTimeout\<close> appends a pending timer, and the calls made on the media
  element are appended to a call log.
\<close>

datatype SyncState = Idle | Requesting | WaitingAck | Syncing | Playing | Paused

text \<open>Channel events, with the payload fields of the source. An identity is
  \<open>string | null\<close>; the \<open>type\<close> of a sync request is an arbitrary string.\<close>

datatype msg =
    SyncRequestMsg string real "string option"
  | SyncAckMsg real "string option"
  | SyncGoMsg real
  | PauseMsg real
  | UrlMsg string
  | StateRequestMsg "string option"
  | StateResponseMsg string bool real "string option" "string option"
  | TimeCheckMsg real "string option"

text \<open>Calls that reach the media surface.\<close>

datatype call = Play | Pause | SeekTo real | SetRate real

text \<open>The internal player returned by \<open>getInternalPlayer\<close>: \<open>readyState\<close> and
  \<open>playbackRate\<close> may be undefined (\<open>None\<close>), and \<open>play\<close>/\<open>pause\<close> may be missing.\<close>

record internal_player =
  readyState :: "nat option"
  playbackRate :: "real option"
  hasPlay :: bool
  hasPause :: bool

text \<open>The object behind \<open>playerRef.current\<close>: its current time, its internal player
  (or null) and the log of calls made on it.\<close>

record media =
  currentTime :: real
  internal :: "internal_player option"
  calls :: "call list"

text \<open>The values of the React state cells that a callback closed over when the
  render that created it ran.\<close>

record closure =
  c_syncState :: SyncState
  c_url :: string
  c_isPlaying :: bool

text \<open>The callbacks handed to \<open>setTimeout\<close>, each with what it captured.\<close>

datatype callback =
    CbAckTimeout SyncState
  | CbCheckReady string real
  | CbReleaseLock
  | CbResetRate
  | CbDebouncePlay closure
  | CbDebouncePause
  | CbDebounceSeek real

type_synonym timer = "nat \<times> nat \<times> callback"

record engine =
  syncState :: SyncState
  url :: string
  isPlaying :: bool
  syncLock :: bool
  isRemoteAction :: bool
  pendingSync :: "(real \<times> string) option"
  debounceTimer :: "nat option"
  playerRef :: "media option"
  myUserId :: "string option"
  isConnected :: bool
  channel :: bool
  outbox :: "msg list"
  timers :: "timer list"
  nextTimerId :: nat
  now :: nat

subsection \<open>Numbers\<close>

text \<open>
  A JavaScript number is an IEEE 754 binary64 value. The finite ones are modelled as the
  reals they denote. \<open>binary64\<close> rounds a real to the nearest binary64 value, ties to
  the even significand: 53 significant bits in the binade from \<open>2 ^ e\<close> up to
  \<open>2 ^ (e + 1)\<close>, so a spacing of \<open>2 ^ (e - 52)\<close> there, and the subnormal spacing
  \<open>2 ^ (- 1074)\<close> below \<open>2 ^ (- 1022)\<close>. A decimal literal of the source denotes the
  rounding of its decimal value, and the difference of two numbers is the rounding of
  their exact difference. A result beyond the largest finite value would be an
  infinity; the model keeps the rounded real, which lies on the same side of every
  threshold of the source.
\<close>

definition round_even :: "real \<Rightarrow> int" where
  "round_even r =
     (let f = \<lfloor>r\<rfloor>
      in if r - of_int f < 1 / 2 then f
         else if 1 / 2 < r - of_int f then f + 1
         else if even f then f else f + 1)"

definition binary64 :: "real \<Rightarrow> real" where
  "binary64 x =
     (if x = 0 then 0
      else
        let e = max \<lfloor>log 2 \<bar>x\<bar>\<rfloor> (- 1022);
            q = 2 powr (of_int e - 52)
        in of_int (round_even (x / q)) * q)"

definition js_sub :: "real \<Rightarrow> real \<Rightarrow> real" where
  "js_sub a b = binary64 (a - b)"

definition MICRO_DRIFT_THRESHOLD :: real where
  "MICRO_DRIFT_THRESHOLD = binary64 0.3"

definition SOFT_SYNC_THRESHOLD :: real where
  "SOFT_SYNC_THRESHOLD = binary64 1.5"

definition HARD_SYNC_THRESHOLD :: real where
  "HARD_SYNC_THRESHOLD = binary64 1.5"

definition DEBOUNCE_MS :: nat where
  "DEBOUNCE_MS = 200"

definition HAVE_FUTURE_DATA :: nat where
  "HAVE_FUTURE_DATA = 3"

text \<open>The closures of the latest render see the committed values of the state cells.\<close>

definition render :: "engine \<Rightarrow> closure" where
  "render s = \<lparr>c_syncState = syncState s, c_url = url s, c_isPlaying = isPlaying s\<rparr>"

subsection \<open>Collaborators: transport, timers, media surface\<close>

text \<open>\<open>trigger\<close> of usePusher: the event is sent only when the channel is set.\<close>

definition trigger :: "msg \<Rightarrow> engine \<Rightarrow> engine" where
  "trigger m s = (if channel s then s\<lparr>outbox := outbox s @ [m]\<rparr> else s)"

definition setTimeout :: "callback \<Rightarrow> nat \<Rightarrow> engine \<Rightarrow> engine" where
  "setTimeout cb delay s =
     s\<lparr>timers := timers s @ [(nextTimerId s, now s + delay, cb)],
       nextTimerId := Suc (nextTimerId s)\<rparr>"

definition clearTimeout :: "nat \<Rightarrow> engine \<Rightarrow> engine" where
  "clearTimeout tid s = s\<lparr>timers := filter (\<lambda>t. fst t \<noteq> tid) (timers s)\<rparr>"

definition getInternalPlayer :: "engine \<Rightarrow> internal_player option" where
  "getInternalPlayer s = (case playerRef s of None \<Rightarrow> None | Some m \<Rightarrow> internal m)"

definition getCurrentTime :: "engine \<Rightarrow> real" where
  "getCurrentTime s = (case playerRef s of None \<Rightarrow> 0 | Some m \<Rightarrow> currentTime m)"

definition log_call :: "call \<Rightarrow> engine \<Rightarrow> engine" where
  "log_call c s =
     (case playerRef s of None \<Rightarrow> s
      | Some m \<Rightarrow> s\<lparr>playerRef := Some (m\<lparr>calls := calls m @ [c]\<rparr>)\<rparr>)"

definition seekTo :: "real \<Rightarrow> engine \<Rightarrow> engine" where
  "seekTo t s =
     (case playerRef s of None \<Rightarrow> s
      | Some m \<Rightarrow> s\<lparr>playerRef := Some (m\<lparr>currentTime := t, calls := calls m @ [SeekTo t]\<rparr>)\<rparr>)"

definition isPlayerReady :: "engine \<Rightarrow> bool" where
  "isPlayerReady s =
     (case getInternalPlayer s of
        None \<Rightarrow> True
      | Some p \<Rightarrow> (case readyState p of None \<Rightarrow> True | Some r \<Rightarrow> HAVE_FUTURE_DATA \<le> r))"

text \<open>\<open>player.pause?.()\<close> on the internal player, when there is one.\<close>

definition pause_player :: "engine \<Rightarrow> engine" where
  "pause_player s =
     (case getInternalPlayer s of
        None \<Rightarrow> s
      | Some p \<Rightarrow> (if hasPause p then log_call Pause s else s))"

text \<open>\<open>player.playbackRate = r\<close> on the internal player, when there is one.\<close>

definition set_rate :: "real \<Rightarrow> engine \<Rightarrow> engine" where
  "set_rate r s =
     (case playerRef s of None \<Rightarrow> s
      | Some m \<Rightarrow>
         (case internal m of None \<Rightarrow> s
          | Some p \<Rightarrow>
              s\<lparr>playerRef :=
                  Some (m\<lparr>internal := Some (p\<lparr>playbackRate := Some r\<rparr>),
                          calls := calls m @ [SetRate r]\<rparr>)\<rparr>))"

definition self_or :: "string option \<Rightarrow> string" where
  "self_or uid = (case uid of None \<Rightarrow> ''self'' | Some u \<Rightarrow> (if u = [] then ''self'' else u))"

subsection \<open>Local actions\<close>

definition executePlay :: "engine \<Rightarrow> engine" where
  "executePlay s =
     (let s1 = (case getInternalPlayer s of
                  None \<Rightarrow> s
                | Some p \<Rightarrow> (if hasPlay p then log_call Play s else s))
      in s1\<lparr>isPlaying := True, syncState := Playing, syncLock := False, pendingSync := None\<rparr>)"

text \<open>The timeout callback of \<open>requestPlay\<close> tests the \<open>syncState\<close> that the callback
  closed over, which is the value of the render that created \<open>requestPlay\<close>; the call
  \<open>setSyncState('requesting')\<close> made just before does not change that binding.\<close>

definition requestPlay :: "closure \<Rightarrow> engine \<Rightarrow> engine" where
  "requestPlay cl s =
     (if syncLock s then s
      else
        let time = getCurrentTime s;
            s1 = s\<lparr>syncLock := True, syncState := Requesting,
                   pendingSync := Some (time, self_or (myUserId s))\<rparr>;
            s2 = trigger (SyncRequestMsg ''play'' time (myUserId s)) s1
        in setTimeout (CbAckTimeout (c_syncState cl)) 3000 s2)"

definition requestPause :: "engine \<Rightarrow> engine" where
  "requestPause s =
     (if isRemoteAction s then s\<lparr>isRemoteAction := False\<rparr>
      else
        let time = getCurrentTime s
        in trigger (PauseMsg time) (s\<lparr>isPlaying := False, syncState := Paused\<rparr>))"

definition requestSeek :: "real \<Rightarrow> engine \<Rightarrow> engine" where
  "requestSeek time s =
     (if syncLock s then s
      else if isRemoteAction s then s\<lparr>isRemoteAction := False\<rparr>
      else
        trigger (SyncRequestMsg ''seek'' time (myUserId s))
          (s\<lparr>syncLock := True, syncState := Syncing,
             pendingSync := Some (time, self_or (myUserId s))\<rparr>))"

definition handleUrlChange :: "string \<Rightarrow> engine \<Rightarrow> engine" where
  "handleUrlChange newUrl s =
     trigger (UrlMsg newUrl) (s\<lparr>url := newUrl, isPlaying := False, syncState := Idle\<rparr>)"

subsection \<open>Remote event handlers\<close>

definition checkReady :: "string \<Rightarrow> real \<Rightarrow> engine \<Rightarrow> engine" where
  "checkReady ty time s =
     (if isPlayerReady s then
        let s1 = trigger (SyncAckMsg time (myUserId s)) s
        in (if ty = ''play'' then s1\<lparr>syncState := WaitingAck\<rparr>
            else s1\<lparr>syncLock := False, syncState := Paused\<rparr>)
      else setTimeout (CbCheckReady ty time) 50 s)"

definition onSyncRequest :: "string \<Rightarrow> real \<Rightarrow> string option \<Rightarrow> engine \<Rightarrow> engine" where
  "onSyncRequest ty time initiator s =
     (if initiator = myUserId s then s
      else if syncLock s then s
      else
        let s1 = s\<lparr>syncLock := True, syncState := Syncing, isRemoteAction := True\<rparr>
        in (case getInternalPlayer s1 of
              None \<Rightarrow> s1
            | Some p \<Rightarrow> setTimeout (CbCheckReady ty time) 100 (seekTo time (pause_player s1))))"

definition onSyncAck :: "real \<Rightarrow> string option \<Rightarrow> engine \<Rightarrow> engine" where
  "onSyncAck time responder s =
     (if responder = myUserId s then s
      else (case pendingSync s of
              None \<Rightarrow> s
            | Some p \<Rightarrow> executePlay (trigger (SyncGoMsg (fst p)) s)))"

definition onSyncGo :: "real \<Rightarrow> engine \<Rightarrow> engine" where
  "onSyncGo time s = executePlay s"

definition onPause :: "real \<Rightarrow> engine \<Rightarrow> engine" where
  "onPause time s =
     (pause_player (s\<lparr>isRemoteAction := True\<rparr>))\<lparr>isPlaying := False, syncState := Paused\<rparr>"

definition onUrl :: "string \<Rightarrow> engine \<Rightarrow> engine" where
  "onUrl u s = s\<lparr>url := u, isPlaying := False, syncState := Idle\<rparr>"

definition onStateRequest :: "closure \<Rightarrow> string option \<Rightarrow> engine \<Rightarrow> engine" where
  "onStateRequest cl requesterId s =
     (if requesterId = myUserId s then s
      else trigger (StateResponseMsg (c_url cl) (c_isPlaying cl) (getCurrentTime s)
                      (myUserId s) requesterId) s)"

definition onStateResponse ::
  "closure \<Rightarrow> string \<Rightarrow> bool \<Rightarrow> real \<Rightarrow> string option \<Rightarrow> string option \<Rightarrow> engine \<Rightarrow> engine" where
  "onStateResponse cl u playing time responderId targetId s =
     (if targetId \<noteq> myUserId s then s
      else
        let s1 = (if u \<noteq> [] \<and> u \<noteq> c_url cl then s\<lparr>url := u\<rparr> else s);
            s2 = (if 0 < time then seekTo time s1 else s1)
        in s2\<lparr>isPlaying := playing, syncState := (if playing then Playing else Paused)\<rparr>)"

text \<open>The effect that binds the handlers: once connected with a channel it also
  broadcasts the state request.\<close>

definition sync_effect :: "engine \<Rightarrow> engine" where
  "sync_effect s =
     (if \<not> isConnected s \<or> \<not> channel s then s
      else trigger (StateRequestMsg (myUserId s)) s)"

subsection \<open>Drift correction\<close>

definition onTimeCheck :: "real \<Rightarrow> string option \<Rightarrow> engine \<Rightarrow> engine" where
  "onTimeCheck time sender s =
     (if sender = myUserId s then s
      else if syncLock s then s
      else
        let localTime = getCurrentTime s;
            diff = \<bar>js_sub time localTime\<bar>
        in if diff < MICRO_DRIFT_THRESHOLD then s
           else if diff > HARD_SYNC_THRESHOLD then
             setTimeout CbReleaseLock 500
               (seekTo time (s\<lparr>syncLock := True, isRemoteAction := True\<rparr>))
           else if diff > MICRO_DRIFT_THRESHOLD then
             (case getInternalPlayer s of
                None \<Rightarrow> s
              | Some p \<Rightarrow>
                  (case playbackRate p of
                     None \<Rightarrow> s
                   | Some r \<Rightarrow>
                       setTimeout CbResetRate 1500
                         (set_rate (if time > localTime then binary64 1.05
                                    else binary64 0.95) s)))
           else s)"

subsection \<open>Player event handlers (debounced)\<close>

text \<open>A pending debounce timer is cleared and replaced; timer handles are non-zero, so
  the test \<open>if (debounceTimer.current)\<close> is the test for a handle being stored.\<close>

definition debounce :: "callback \<Rightarrow> engine \<Rightarrow> engine" where
  "debounce cb s =
     (let s1 = (case debounceTimer s of None \<Rightarrow> s | Some tid \<Rightarrow> clearTimeout tid s);
          tid = nextTimerId s1
      in (setTimeout cb DEBOUNCE_MS s1)\<lparr>debounceTimer := Some tid\<rparr>)"

definition handlePlayerPlay :: "closure \<Rightarrow> engine \<Rightarrow> engine" where
  "handlePlayerPlay cl s =
     (if isRemoteAction s then s\<lparr>isRemoteAction := False\<rparr>
      else if syncLock s then s
      else debounce (CbDebouncePlay cl) s)"

definition handlePlayerPause :: "engine \<Rightarrow> engine" where
  "handlePlayerPause s =
     (if isRemoteAction s then s\<lparr>isRemoteAction := False\<rparr>
      else if syncLock s then s
      else debounce CbDebouncePause s)"

definition handlePlayerSeek :: "real \<Rightarrow> engine \<Rightarrow> engine" where
  "handlePlayerSeek time s =
     (if isRemoteAction s then s\<lparr>isRemoteAction := False\<rparr>
      else if syncLock s then s
      else debounce (CbDebounceSeek time) s)"

subsection \<open>Running timers and delivering messages\<close>

definition fire :: "callback \<Rightarrow> engine \<Rightarrow> engine" where
  "fire cb s =
     (case cb of
        CbAckTimeout st \<Rightarrow>
          (if st = Requesting \<or> st = WaitingAck then executePlay s else s)
      | CbCheckReady ty time \<Rightarrow> checkReady ty time s
      | CbReleaseLock \<Rightarrow> s\<lparr>syncLock := False\<rparr>
      | CbResetRate \<Rightarrow> set_rate 1.0 s
      | CbDebouncePlay cl \<Rightarrow> requestPlay cl s
      | CbDebouncePause \<Rightarrow> requestPause s
      | CbDebounceSeek time \<Rightarrow> requestSeek time s)"

text \<open>The pending timer that is due first (the earliest registered one among equals),
  if it is due by the deadline.\<close>

fun earliest :: "timer list \<Rightarrow> timer option" where
  "earliest [] = None"
| "earliest (t # ts) =
     (case earliest ts of
        None \<Rightarrow> Some t
      | Some u \<Rightarrow> (if fst (snd u) < fst (snd t) then Some u else Some t))"

definition next_due :: "nat \<Rightarrow> engine \<Rightarrow> timer option" where
  "next_due deadline s =
     (case earliest (timers s) of
        None \<Rightarrow> None
      | Some t \<Rightarrow> (if fst (snd t) \<le> deadline then Some t else None))"

text \<open>
  After a callback or handler has run, React renders again. The effect that binds the
  handlers lists \<open>url\<close> and \<open>isPlaying\<close> among its dependencies, so when one of them
  differs from the previous render the effect runs again and, once more, broadcasts
  the state request. The first argument is the state of the previous render, the
  second the state the callback or handler left.
\<close>

definition rerun_effect :: "engine \<Rightarrow> engine \<Rightarrow> engine" where
  "rerun_effect s s' =
     (if url s' \<noteq> url s \<or> isPlaying s' \<noteq> isPlaying s then sync_effect s' else s')"

text \<open>
  The video player component renders its player under \<open>key={url}\<close>: when the URL
  differs from the previous render, the old player is unmounted and a new one is
  mounted, at position 0. Which internal player the new one has is up to the media
  surface and is given as \<open>np\<close>.
\<close>

definition remount :: "internal_player option \<Rightarrow> engine \<Rightarrow> engine \<Rightarrow> engine" where
  "remount np s s' =
     (if url s' \<noteq> url s then
        (case playerRef s' of
           None \<Rightarrow> s'
         | Some m \<Rightarrow> s'\<lparr>playerRef := Some (m\<lparr>currentTime := 0, internal := np\<rparr>)\<rparr>)
      else s')"

definition commit :: "internal_player option \<Rightarrow> engine \<Rightarrow> engine \<Rightarrow> engine" where
  "commit np s s' = rerun_effect s (remount np s s')"

text \<open>Let the clock run to the deadline, firing every timer that falls due on the way,
  each followed by the render it causes (no timer callback changes the URL). The fuel
  bounds the number of callbacks; \<open>None\<close> means the fuel ran out.\<close>

fun advance :: "nat \<Rightarrow> nat \<Rightarrow> engine \<Rightarrow> engine option" where
  "advance 0 deadline s = None"
| "advance (Suc n) deadline s =
     (case next_due deadline s of
        None \<Rightarrow> Some (s\<lparr>now := max (now s) deadline\<rparr>)
      | Some t \<Rightarrow>
          (let s0 = (clearTimeout (fst t) s)\<lparr>now := max (now s) (fst (snd t))\<rparr>
           in advance n deadline (rerun_effect s0 (fire (snd (snd t)) s0))))"

text \<open>Delivery of a channel event, up to the return of its handler: the handlers are
  bound only while connected with a channel, each with the closure of the latest
  render; the time-check handler is bound only while that render's \<open>syncState\<close> is
  \<open>playing\<close>. The periodic time-check broadcast of the drift effect is not part of
  any handler and is not modelled.\<close>

definition deliver :: "msg \<Rightarrow> engine \<Rightarrow> engine" where
  "deliver m s =
     (if \<not> isConnected s \<or> \<not> channel s then s
      else
        (case m of
           SyncRequestMsg ty time initiator \<Rightarrow> onSyncRequest ty time initiator s
         | SyncAckMsg time responder \<Rightarrow> onSyncAck time responder s
         | SyncGoMsg time \<Rightarrow> onSyncGo time s
         | PauseMsg time \<Rightarrow> onPause time s
         | UrlMsg u \<Rightarrow> onUrl u s
         | StateRequestMsg requesterId \<Rightarrow> onStateRequest (render s) requesterId s
         | StateResponseMsg u playing time responderId targetId \<Rightarrow>
             onStateResponse (render s) u playing time responderId targetId s
         | TimeCheckMsg time sender \<Rightarrow>
             (if syncState s \<noteq> Playing then s else onTimeCheck time sender s)))"

text \<open>A channel event and a local URL change, each with the render that follows.\<close>

definition dispatch :: "internal_player option \<Rightarrow> msg \<Rightarrow> engine \<Rightarrow> engine" where
  "dispatch np m s = commit np s (deliver m s)"

definition changeUrl :: "internal_player option \<Rightarrow> string \<Rightarrow> engine \<Rightarrow> engine" where
  "changeUrl np newUrl s = commit np s (handleUrlChange newUrl s)"

text \<open>The play and pause events of the player reach the hook through the wrappers of
  the video player component, which consume the remote-echo flag themselves.\<close>

definition player_onPlay :: "closure \<Rightarrow> engine \<Rightarrow> engine" where
  "player_onPlay cl s =
     (if isRemoteAction s then s\<lparr>isRemoteAction := False\<rparr> else handlePlayerPlay cl s)"

definition player_onPause :: "engine \<Rightarrow> engine" where
  "player_onPause s =
     (if isRemoteAction s then s\<lparr>isRemoteAction := False\<rparr> else handlePlayerPause s)"

text \<open>A connected peer in the hook's initial state, with a video element that has
  buffered enough data.\<close>

definition video_element :: internal_player where
  "video_element = \<lparr>readyState = Some 4, playbackRate = Some 1, hasPlay = True, hasPause = True\<rparr>"

definition fresh_peer :: "string \<Rightarrow> engine" where
  "fresh_peer uid =
     \<lparr>syncState = Idle, url = [], isPlaying = False, syncLock = False,
      isRemoteAction = False, pendingSync = None, debounceTimer = None,
      playerRef = Some \<lparr>currentTime = 0, internal = Some video_element, calls = []\<rparr>,
      myUserId = Some uid, isConnected = True, channel = True,
      outbox = [], timers = [], nextTimerId = 1, now = 0\<rparr>"

section \<open>Voice arbitration\<close>

subsection \<open>The socket-based room page: pause and resume around a voice note\<close>

text \<open>The page keeps the cells \<open>videoState\<close> and \<open>volume\<close>, the ref
  \<open>isVoiceInterruption\<close> and the persisted audio element (\<open>audioRef.current\<close>,
  possibly null). A received blob is identified by a number.\<close>

record voice_audio =
  va_src :: "nat option"
  va_volume :: real

record socket_room =
  vs_playing :: bool
  vs_timestamp :: real
  vs_url :: string
  sr_volume :: real
  isVoiceInterruption :: bool
  audioRef :: "voice_audio option"

text \<open>The \<open>voice-note\<close> handler. \<open>playOk\<close> tells whether the awaited
  \<open>audioRef.current.play()\<close> resolves; when it rejects, the catch block clears the
  interruption flag and does not resume.\<close>

definition voice_note :: "nat \<Rightarrow> bool \<Rightarrow> socket_room \<Rightarrow> socket_room" where
  "voice_note blob playOk r =
     (let r1 = r\<lparr>isVoiceInterruption := True, vs_playing := False\<rparr>
      in (case audioRef r1 of
            None \<Rightarrow> r1
          | Some a \<Rightarrow>
              (let r2 = r1\<lparr>audioRef := Some (a\<lparr>va_src := Some blob, va_volume := 1.0\<rparr>)\<rparr>
               in if playOk then r2 else r2\<lparr>isVoiceInterruption := False\<rparr>)))"

definition handleAudioEnded :: "socket_room \<Rightarrow> socket_room" where
  "handleAudioEnded r =
     (if isVoiceInterruption r then r\<lparr>isVoiceInterruption := False, vs_playing := True\<rparr>
      else r)"

subsection \<open>The Pusher-based room page: ducking the video volume\<close>

text \<open>The page keeps the cells \<open>volume\<close> (what the video element gets) and
  \<open>baseVolume\<close> (what the control bar shows and the user sets), the hidden audio
  element \<open>talkieAudioRef.current\<close>, and the synchronization engine it obtained from
  \<open>useSyncLogic\<close>. The \<open>onended\<close> and \<open>onerror\<close> handlers installed on the element
  are closures over \<open>prevVolume\<close>; the model stores that value.\<close>

record talkie_audio =
  ta_src :: "nat option"
  ta_volume :: real
  ta_onended :: "real option"
  ta_onerror :: "real option"

record room_page =
  volume :: real
  baseVolume :: real
  talkieAudioRef :: "talkie_audio option"
  sync :: engine

definition DUCK_VOLUME :: real where
  "DUCK_VOLUME = binary64 0.2"

text \<open>\<open>handleAudioReceived\<close> is created with dependency \<open>volume\<close>: the first
  argument is the \<open>volume\<close> it closed over. \<open>playOk\<close> tells whether \<open>play()\<close>
  resolves; its catch handler restores \<open>prevVolume\<close>.\<close>

definition handleAudioReceived :: "real \<Rightarrow> nat \<Rightarrow> bool \<Rightarrow> room_page \<Rightarrow> room_page" where
  "handleAudioReceived cv blob playOk r =
     (case talkieAudioRef r of
        None \<Rightarrow> r
      | Some a \<Rightarrow>
          (let prevVolume = cv;
               r1 = r\<lparr>volume := DUCK_VOLUME\<rparr>;
               r2 = r1\<lparr>talkieAudioRef :=
                        Some (a\<lparr>ta_src := Some blob, ta_volume := 1.0,
                                ta_onended := Some prevVolume, ta_onerror := Some prevVolume\<rparr>)\<rparr>
           in if playOk then r2 else r2\<lparr>volume := prevVolume\<rparr>))"

text \<open>An incoming audio message reaches the handler of the latest render.\<close>

definition audio_received :: "nat \<Rightarrow> bool \<Rightarrow> room_page \<Rightarrow> room_page" where
  "audio_received blob playOk r = handleAudioReceived (volume r) blob playOk r"

text \<open>The audio element finishing playback runs the installed \<open>onended\<close> handler.\<close>

definition talkie_ended :: "room_page \<Rightarrow> room_page" where
  "talkie_ended r =
     (case talkieAudioRef r of
        None \<Rightarrow> r
      | Some a \<Rightarrow> (case ta_onended a of None \<Rightarrow> r | Some prevVolume \<Rightarrow> r\<lparr>volume := prevVolume\<rparr>))"

definition handleVolumeChange :: "real \<Rightarrow> room_page \<Rightarrow> room_page" where
  "handleVolumeChange v r = r\<lparr>baseVolume := v, volume := v\<rparr>"

section \<open>Observations and sample runs\<close>

definition player_calls :: "engine \<Rightarrow> call list" where
  "player_calls s = (case playerRef s of None \<Rightarrow> [] | Some m \<Rightarrow> calls m)"

definition player_rate :: "engine \<Rightarrow> real option" where
  "player_rate s = (case getInternalPlayer s of None \<Rightarrow> None | Some p \<Rightarrow> playbackRate p)"

text \<open>Alice after the bootstrap answer of a peer that is playing from position 0.\<close>

definition playing_peer :: engine where
  "playing_peer =
     dispatch (Some video_element)
       (StateResponseMsg ''http://v/a.mp4'' True 0 (Some ''bob'') (Some ''alice''))
       (fresh_peer ''alice'')"

text \<open>Alice right after \<open>requestPlay\<close> was called on the first render.\<close>

definition lone_request :: engine where
  "lone_request = requestPlay (render (fresh_peer ''alice'')) (fresh_peer ''alice'')"

text \<open>Alice right after her player reported a local play on the first render.\<close>

definition pressed_play :: engine where
  "pressed_play = handlePlayerPlay (render (fresh_peer ''alice'')) (fresh_peer ''alice'')"

text \<open>Bob, playing a video from position 42, as a late joiner finds him.\<close>

definition host_peer :: engine where
  "host_peer =
     (fresh_peer ''bob'')\<lparr>url := ''http://v/a.mp4'', isPlaying := True, syncState := Playing,
        playerRef := Some \<lparr>currentTime = 42, internal = Some video_element, calls = []\<rparr>\<rparr>"

text \<open>A seek-only handshake: Alice's debounced seek to 42 has fired; Bob has received
  her request.\<close>

definition seek_initiator :: engine where
  "seek_initiator = requestSeek 42 (fresh_peer ''alice'')"

definition seek_responder :: engine where
  "seek_responder = deliver (SyncRequestMsg ''seek'' 42 (Some ''alice'')) (fresh_peer ''bob'')"

text \<open>Alice, playing, hard-seeks on a time check (which arms the 500 ms release), then
  receives a sync-go, and then requests play while the release timer is still pending.\<close>

definition racing_request :: engine where
  "racing_request =
     (let s = dispatch (Some video_element) (SyncGoMsg 2)
                (dispatch (Some video_element) (TimeCheckMsg 2 (Some ''bob'')) playing_peer)
      in requestPlay (render s) s)"

text \<open>The socket-based page while a video plays, with its audio element mounted.\<close>

definition watching_room :: socket_room where
  "watching_room =
     \<lparr>vs_playing = True, vs_timestamp = 10, vs_url = ''http://v/a.mp4'',
      sr_volume = binary64 0.8,
      isVoiceInterruption = False, audioRef = Some \<lparr>va_src = None, va_volume = 1\<rparr>\<rparr>"

text \<open>The Pusher-based page in its initial state (both volume cells at 0.8, the audio
  element mounted) around an engine that is playing.\<close>

definition watching_page :: room_page where
  "watching_page =
     \<lparr>volume = binary64 0.8, baseVolume = binary64 0.8,
      talkieAudioRef = Some \<lparr>ta_src = None, ta_volume = 1, ta_onended = None, ta_onerror = None\<rparr>,
      sync = playing_peer\<rparr>"

text \<open>The two time checks at Alice, playing at position 0: one exactly 0.3 s ahead of
  her, one 0.5 s ahead.\<close>

definition boundary_check :: engine where
  "boundary_check =
     dispatch (Some video_element) (TimeCheckMsg MICRO_DRIFT_THRESHOLD (Some ''bob'')) playing_peer"

definition inside_check :: engine where
  "inside_check = dispatch (Some video_element) (TimeCheckMsg 0.5 (Some ''bob'')) playing_peer"

text \<open>Alice, paused with a video loaded, receives a sync-go; her player starts and
  reports the play.\<close>

definition paused_viewer :: engine where
  "paused_viewer = (fresh_peer ''alice'')\<lparr>url := ''http://v/a.mp4'', syncState := Paused\<rparr>"

definition go_received :: engine where
  "go_received = dispatch (Some video_element) (SyncGoMsg 0) paused_viewer"

definition go_reported :: engine where
  "go_reported = player_onPlay (render go_received) go_received"

text \<open>A late joiner: Alice connects and asks for the state; Bob, playing at 42,
  answers; Alice takes the answer; her new player starts and reports the play.\<close>

definition joiner_asks :: engine where
  "joiner_asks = sync_effect (fresh_peer ''alice'')"

definition host_answer :: "msg list" where
  "host_answer =
     outbox (dispatch (Some video_element) (StateRequestMsg (Some ''alice'')) host_peer)"

definition joiner_adopts :: engine where
  "joiner_adopts =
     dispatch (Some video_element)
       (StateResponseMsg ''http://v/a.mp4'' True 42 (Some ''bob'') (Some ''alice'')) joiner_asks"

definition joiner_plays :: engine where
  "joiner_plays = player_onPlay (render joiner_adopts) joiner_adopts"

section \<open>Properties\<close>

subsection \<open>Rounding at the numbers used\<close>

lemma floor_log2_binade:
  assumes "2 powr of_int e \<le> x" and "x < 2 powr (of_int e + 1)"
  shows "\<lfloor>log 2 x\<rfloor> = e"
proof (rule floor_unique)
  have "0 < 2 powr (of_int e :: real)" by simp
  with assms(1) have pos: "0 < x" by linarith
  show "of_int e \<le> log 2 x" using assms(1) pos by (simp add: le_log_iff)
  show "log 2 x < of_int e + 1" using assms(2) pos by (simp add: log_less_iff)
qed

lemma binary64_binade:
  assumes "2 powr of_int e \<le> \<bar>x\<bar>" and "\<bar>x\<bar> < 2 powr (of_int e + 1)" and "- 1022 \<le> e"
  shows "binary64 x = of_int (round_even (x / 2 powr (of_int e - 52))) * 2 powr (of_int e - 52)"
proof -
  have "0 < 2 powr (of_int e :: real)" by simp
  with assms(1) have "x \<noteq> 0" by linarith
  moreover have "\<lfloor>log 2 \<bar>x\<bar>\<rfloor> = e" by (rule floor_log2_binade [OF assms(1,2)])
  ultimately show ?thesis using assms(3) by (simp add: binary64_def Let_def max_def)
qed

lemma MICRO_value: "MICRO_DRIFT_THRESHOLD = 5404319552844595 / 18014398509481984"
  unfolding MICRO_DRIFT_THRESHOLD_def
  using binary64_binade [of "- 2" "0.3"] by (simp add: powr_minus round_even_def)

lemma HARD_value: "HARD_SYNC_THRESHOLD = 3 / 2"
  unfolding HARD_SYNC_THRESHOLD_def
  using binary64_binade [of 0 "1.5"] by (simp add: powr_minus round_even_def)

lemma DUCK_value: "DUCK_VOLUME = 3602879701896397 / 18014398509481984"
  unfolding DUCK_VOLUME_def
  using binary64_binade [of "- 3" "0.2"] by (simp add: powr_minus round_even_def)

lemma binary64_0_8: "binary64 0.8 = 3602879701896397 / 4503599627370496"
  using binary64_binade [of "- 1" "0.8"] by (simp add: powr_minus round_even_def)

lemma binary64_1_05: "binary64 1.05 = 4728779608739021 / 4503599627370496"
  using binary64_binade [of 0 "1.05"] by (simp add: powr_minus round_even_def)

lemma binary64_micro:
  "binary64 (5404319552844595 / 18014398509481984) = 5404319552844595 / 18014398509481984"
  using binary64_binade [of "- 2" "5404319552844595 / 18014398509481984"]
  by (simp add: powr_minus round_even_def)

lemma binary64_half: "binary64 (1 / 2) = 1 / 2"
  using binary64_binade [of "- 1" "1 / 2"] by (simp add: powr_minus round_even_def)

lemma binary64_two: "binary64 2 = 2"
  using binary64_binade [of 1 2] by (simp add: powr_minus round_even_def)

lemmas number_values = MICRO_value HARD_value js_sub_def binary64_micro binary64_half binary64_two

lemmas eng_defs = requestPlay_def requestPause_def requestSeek_def executePlay_def trigger_def
  setTimeout_def clearTimeout_def getInternalPlayer_def getCurrentTime_def log_call_def seekTo_def
  isPlayerReady_def pause_player_def set_rate_def self_or_def handleUrlChange_def checkReady_def
  onSyncRequest_def onSyncAck_def onSyncGo_def onPause_def onUrl_def onStateRequest_def
  onStateResponse_def sync_effect_def onTimeCheck_def debounce_def handlePlayerPlay_def
  handlePlayerPause_def handlePlayerSeek_def fire_def next_due_def deliver_def render_def
  DEBOUNCE_MS_def HAVE_FUTURE_DATA_def player_calls_def player_rate_def rerun_effect_def
  remount_def commit_def dispatch_def changeUrl_def player_onPlay_def player_onPause_def

lemmas peer_defs = fresh_peer_def video_element_def playing_peer_def lone_request_def host_peer_def
  seek_initiator_def seek_responder_def racing_request_def pressed_play_def

lemmas run_defs = boundary_check_def inside_check_def paused_viewer_def go_received_def
  go_reported_def joiner_asks_def host_answer_def joiner_adopts_def joiner_plays_def

subsection \<open>C1: the acknowledgement timeout\<close>

text \<open>
  Claim C1 says that a play request that gets no acknowledgement within 3000 ms ends
  with play committed locally exactly once, \<open>isPlaying\<close> true, state \<open>playing\<close> and
  the lock released. On the code this fails: a peer in the initial state calls
  \<open>requestPlay\<close>, the request goes out and the timer is armed, but the timer's test
  reads the \<open>syncState\<close> the callback closed over (\<open>idle\<close>), so when the clock reaches
  3000 ms nothing is committed: \<open>isPlaying\<close> is still false, the state is still
  \<open>requesting\<close>, the lock is still held, \<open>play()\<close> was never called, and no timer is
  left that could commit later. The same holds from the player's play event on: the
  debounce fires after 200 ms, the request goes out, and 3000 ms later nothing happens.
\<close>

theorem requestPlay_timeout_commits_no_play:
  "map_option isPlaying (advance 2 3000 lone_request) = Some False
   \<and> map_option syncState (advance 2 3000 lone_request) = Some Requesting
   \<and> map_option syncLock (advance 2 3000 lone_request) = Some True
   \<and> map_option player_calls (advance 2 3000 lone_request) = Some []
   \<and> map_option timers (advance 2 3000 lone_request) = Some []
   \<and> map_option now (advance 2 3000 lone_request) = Some 3000
   \<and> timers lone_request = [(1, 3000, CbAckTimeout Idle)]
   \<and> outbox lone_request = [SyncRequestMsg ''play'' 0 (Some ''alice'')]
   \<and> timers pressed_play
        = [(1, 200, CbDebouncePlay \<lparr>c_syncState = Idle, c_url = [], c_isPlaying = False\<rparr>)]
   \<and> map_option outbox (advance 3 3200 pressed_play)
        = Some [SyncRequestMsg ''play'' 0 (Some ''alice'')]
   \<and> map_option isPlaying (advance 3 3200 pressed_play) = Some False
   \<and> map_option syncState (advance 3 3200 pressed_play) = Some Requesting
   \<and> map_option syncLock (advance 3 3200 pressed_play) = Some True
   \<and> map_option player_calls (advance 3 3200 pressed_play) = Some []
   \<and> map_option timers (advance 3 3200 pressed_play) = Some []"
  by (simp add: eng_defs peer_defs Let_def eval_nat_numeral)

subsection \<open>C10: a bootstrap answer during a handshake\<close>

text \<open>
  Claim C10: the state-response handler does not look at the sync lock. With the lock
  held, in any session state, a response addressed to this peer still sets
  \<open>isPlaying\<close> and the session state from the response and adopts its URL (an empty
  URL is no URL and is not adopted), while the lock stays held and the pending
  target and the armed timers stay as they were.
\<close>

theorem state_response_ignores_lock:
  assumes "isConnected s" and "channel s" and "syncLock s"
  shows "isPlaying (deliver (StateResponseMsg u p t r (myUserId s)) s) = p
       \<and> syncState (deliver (StateResponseMsg u p t r (myUserId s)) s) = (if p then Playing else Paused)
       \<and> url (deliver (StateResponseMsg u p t r (myUserId s)) s) = (if u = [] then url s else u)
       \<and> syncLock (deliver (StateResponseMsg u p t r (myUserId s)) s)
       \<and> pendingSync (deliver (StateResponseMsg u p t r (myUserId s)) s) = pendingSync s
       \<and> timers (deliver (StateResponseMsg u p t r (myUserId s)) s) = timers s"
  using assms
  by (simp add: deliver_def onStateResponse_def render_def seekTo_def Let_def split: option.splits)

theorem state_response_ignores_lock_witness:
  "isConnected lone_request \<and> channel lone_request \<and> syncLock lone_request
   \<and> pendingSync lone_request = Some (0, ''alice'')
   \<and> syncState lone_request = Requesting
   \<and> syncState (deliver (StateResponseMsg ''http://v/b.mp4'' False 7 (Some ''bob'') (Some ''alice'')) lone_request) = Paused
   \<and> url (deliver (StateResponseMsg ''http://v/b.mp4'' False 7 (Some ''bob'') (Some ''alice'')) lone_request) = ''http://v/b.mp4''
   \<and> \<not> isPlaying (deliver (StateResponseMsg ''http://v/b.mp4'' False 7 (Some ''bob'') (Some ''alice'')) lone_request)
   \<and> syncLock (deliver (StateResponseMsg ''http://v/b.mp4'' False 7 (Some ''bob'') (Some ''alice'')) lone_request)
   \<and> pendingSync (deliver (StateResponseMsg ''http://v/b.mp4'' False 7 (Some ''bob'') (Some ''alice'')) lone_request) = Some (0, ''alice'')"
proof -
  have c: "isConnected lone_request" and ch: "channel lone_request" and l: "syncLock lone_request"
    and p: "pendingSync lone_request = Some (0, ''alice'')" and st: "syncState lone_request = Requesting"
    and me: "myUserId lone_request = Some ''alice''"
    by (simp_all add: eng_defs peer_defs Let_def)
  show ?thesis
    using c ch l p st
      state_response_ignores_lock [OF c ch l, of "''http://v/b.mp4''" False 7 "Some ''bob''"]
    by (simp add: me)
qed

subsection \<open>C6: guards of the inbound handlers\<close>

lemma onSyncRequest_twice:
  "onSyncRequest ty t i (onSyncRequest ty t i s) = onSyncRequest ty t i s"
  by (simp add: onSyncRequest_def Let_def setTimeout_def seekTo_def pause_player_def log_call_def
      getInternalPlayer_def split: option.splits)

lemma onSyncAck_twice:
  "onSyncAck t r (onSyncAck t r s) = onSyncAck t r s"
  by (simp add: onSyncAck_def executePlay_def trigger_def log_call_def Let_def
      getInternalPlayer_def split: option.splits)

lemma executePlay_commits:
  "isPlaying (executePlay s) \<and> syncState (executePlay s) = Playing
   \<and> \<not> syncLock (executePlay s) \<and> pendingSync (executePlay s) = None"
  by (simp add: executePlay_def Let_def)

text \<open>
  Claim C6 says that a sync-go arriving when no handshake is pending is dropped without
  changing state. On the code it is not: a peer in the initial state (idle, nothing
  pending, lock free) that receives a sync-go calls \<open>play()\<close> and ends in state
  \<open>playing\<close> with \<open>isPlaying\<close> true.
\<close>

theorem stray_sync_go_commits_play:
  "syncState (fresh_peer ''alice'') = Idle
   \<and> pendingSync (fresh_peer ''alice'') = None
   \<and> \<not> syncLock (fresh_peer ''alice'')
   \<and> \<not> isPlaying (fresh_peer ''alice'')
   \<and> syncState (deliver (SyncGoMsg 0) (fresh_peer ''alice'')) = Playing
   \<and> isPlaying (deliver (SyncGoMsg 0) (fresh_peer ''alice''))
   \<and> player_calls (deliver (SyncGoMsg 0) (fresh_peer ''alice'')) = [Play]"
  by (simp add: eng_defs peer_defs Let_def)

text \<open>
  Claim C6 as amended: a sync-request, sync-ack, state-request or time-check carrying
  the local identity is discarded, and so is a state-response addressed to another
  peer; a sync-ack with no pending target, and a sync-request or time-check while the
  lock is held, are dropped without changing state; a sync-request or sync-ack
  delivered twice in a row has no effect the second time. A sync-go is never dropped:
  in every state it commits play and releases the lock.
\<close>

theorem inbound_guards:
  "onSyncRequest ty t (myUserId s) s = s
   \<and> onSyncAck t (myUserId s) s = s
   \<and> onStateRequest cl (myUserId s) s = s
   \<and> onTimeCheck t (myUserId s) s = s
   \<and> (target \<noteq> myUserId s \<longrightarrow> onStateResponse cl u p t r target s = s)
   \<and> (pendingSync s = None \<longrightarrow> onSyncAck t r s = s)
   \<and> (syncLock s \<longrightarrow> onSyncRequest ty t i s = s \<and> onTimeCheck t i s = s)
   \<and> onSyncRequest ty t i (onSyncRequest ty t i s) = onSyncRequest ty t i s
   \<and> onSyncAck t r (onSyncAck t r s) = onSyncAck t r s
   \<and> isPlaying (onSyncGo t s) \<and> syncState (onSyncGo t s) = Playing
   \<and> \<not> syncLock (onSyncGo t s) \<and> pendingSync (onSyncGo t s) = None"
proof (intro conjI impI)
  show "onSyncRequest ty t (myUserId s) s = s" by (simp add: onSyncRequest_def)
  show "onSyncAck t (myUserId s) s = s" by (simp add: onSyncAck_def)
  show "onStateRequest cl (myUserId s) s = s" by (simp add: onStateRequest_def)
  show "onTimeCheck t (myUserId s) s = s" by (simp add: onTimeCheck_def)
  show "onSyncRequest ty t i (onSyncRequest ty t i s) = onSyncRequest ty t i s"
    by (rule onSyncRequest_twice)
  show "onSyncAck t r (onSyncAck t r s) = onSyncAck t r s" by (rule onSyncAck_twice)
  show "isPlaying (onSyncGo t s)" "syncState (onSyncGo t s) = Playing"
    "\<not> syncLock (onSyncGo t s)" "pendingSync (onSyncGo t s) = None"
    using executePlay_commits [of s] by (simp_all add: onSyncGo_def)
next
  assume "target \<noteq> myUserId s"
  then show "onStateResponse cl u p t r target s = s" by (simp add: onStateResponse_def)
next
  assume "pendingSync s = None"
  then show "onSyncAck t r s = s" by (simp add: onSyncAck_def)
next
  assume l: "syncLock s"
  then show "onSyncRequest ty t i s = s" by (simp add: onSyncRequest_def)
  from l show "onTimeCheck t i s = s" by (simp add: onTimeCheck_def)
qed

theorem inbound_guards_witness:
  "Some ''bob'' \<noteq> myUserId (fresh_peer ''alice'')
   \<and> pendingSync (fresh_peer ''alice'') = None
   \<and> syncLock lone_request
   \<and> onSyncRequest ''play'' 3 (Some ''alice'') (fresh_peer ''alice'') = fresh_peer ''alice''
   \<and> onStateResponse (render (fresh_peer ''alice'')) ''http://v/a.mp4'' True 3 (Some ''bob'') (Some ''bob'')
        (fresh_peer ''alice'') = fresh_peer ''alice''
   \<and> onSyncAck 3 (Some ''bob'') (fresh_peer ''alice'') = fresh_peer ''alice''
   \<and> onSyncRequest ''play'' 3 (Some ''bob'') lone_request = lone_request
   \<and> onTimeCheck 3 (Some ''bob'') lone_request = lone_request
   \<and> syncState (onSyncGo 3 (fresh_peer ''alice'')) = Playing"
proof -
  have f: "Some ''bob'' \<noteq> myUserId (fresh_peer ''alice'')" "pendingSync (fresh_peer ''alice'') = None"
    "syncLock lone_request" "myUserId (fresh_peer ''alice'') = Some ''alice''"
    by (simp_all add: eng_defs peer_defs Let_def)
  show ?thesis
    using f(1-3)
      inbound_guards [where ty = "''play''" and t = 3 and s = "fresh_peer ''alice''"
         and cl = "render (fresh_peer ''alice'')" and target = "Some ''bob''"
         and u = "''http://v/a.mp4''" and p = True and r = "Some ''bob''" and i = "Some ''bob''"]
      inbound_guards [where ty = "''play''" and t = 3 and s = lone_request
         and cl = "render (fresh_peer ''alice'')" and target = "Some ''bob''"
         and u = "''http://v/a.mp4''" and p = True and r = "Some ''bob''" and i = "Some ''bob''"]
    by (simp add: f(4))
qed

subsection \<open>C2: the seek-only handshake\<close>

lemma responder_accepts:
  assumes "i \<noteq> myUserId s" and "\<not> syncLock s" and "getInternalPlayer s = Some pl"
  shows "syncLock (onSyncRequest ty t i s) \<and> syncState (onSyncRequest ty t i s) = Syncing
       \<and> isRemoteAction (onSyncRequest ty t i s)
       \<and> player_calls (onSyncRequest ty t i s)
            = player_calls s @ (if hasPause pl then [Pause] else []) @ [SeekTo t]
       \<and> timers (onSyncRequest ty t i s)
            = timers s @ [(nextTimerId s, now s + 100, CbCheckReady ty t)]
       \<and> outbox (onSyncRequest ty t i s) = outbox s
       \<and> isPlaying (onSyncRequest ty t i s) = isPlaying s"
  using assms
  by (auto simp: onSyncRequest_def setTimeout_def seekTo_def pause_player_def log_call_def
      getInternalPlayer_def player_calls_def Let_def split: option.splits)

lemma responder_polls:
  "\<not> isPlayerReady s \<Longrightarrow> checkReady ty t s = setTimeout (CbCheckReady ty t) 50 s"
  by (simp add: checkReady_def)

lemma responder_seek_done:
  assumes "isPlayerReady s" and "channel s" and "ty \<noteq> ''play''"
  shows "outbox (checkReady ty t s) = outbox s @ [SyncAckMsg t (myUserId s)]
       \<and> \<not> syncLock (checkReady ty t s) \<and> syncState (checkReady ty t s) = Paused
       \<and> isPlaying (checkReady ty t s) = isPlaying s
       \<and> player_calls (checkReady ty t s) = player_calls s
       \<and> timers (checkReady ty t s) = timers s"
  using assms by (simp add: checkReady_def trigger_def player_calls_def Let_def)

lemma initiator_seek_ack:
  assumes "\<not> syncLock s" and "\<not> isRemoteAction s" and "channel s" and "r \<noteq> myUserId s"
  shows "outbox (onSyncAck t' r (requestSeek t s))
           = outbox s @ [SyncRequestMsg ''seek'' t (myUserId s), SyncGoMsg t]
       \<and> isPlaying (onSyncAck t' r (requestSeek t s))
       \<and> syncState (onSyncAck t' r (requestSeek t s)) = Playing
       \<and> \<not> syncLock (onSyncAck t' r (requestSeek t s))
       \<and> pendingSync (onSyncAck t' r (requestSeek t s)) = None"
  using assms
  by (simp add: onSyncAck_def requestSeek_def executePlay_def trigger_def log_call_def
      getInternalPlayer_def Let_def split: option.splits)

text \<open>
  Claim C2 says that a seek-only handshake commits no play on either peer and ends in
  state \<open>paused\<close>. On the code it ends in \<open>playing\<close> on both: Alice requests a seek
  to 42; Bob pauses, seeks, and 100 ms later acknowledges, in state \<open>paused\<close> with
  his lock free; on that acknowledgement Alice broadcasts sync-go and commits play;
  on her sync-go Bob commits play too.
\<close>

theorem seek_handshake_commits_play:
  "syncState seek_initiator = Syncing
   \<and> outbox seek_initiator = [SyncRequestMsg ''seek'' 42 (Some ''alice'')]
   \<and> player_calls seek_responder = [Pause, SeekTo 42]
   \<and> map_option syncState (advance 2 100 seek_responder) = Some Paused
   \<and> map_option syncLock (advance 2 100 seek_responder) = Some False
   \<and> map_option outbox (advance 2 100 seek_responder) = Some [SyncAckMsg 42 (Some ''bob'')]
   \<and> isPlaying (deliver (SyncAckMsg 42 (Some ''bob'')) seek_initiator)
   \<and> syncState (deliver (SyncAckMsg 42 (Some ''bob'')) seek_initiator) = Playing
   \<and> player_calls (deliver (SyncAckMsg 42 (Some ''bob'')) seek_initiator) = [Play]
   \<and> outbox (deliver (SyncAckMsg 42 (Some ''bob'')) seek_initiator)
        = [SyncRequestMsg ''seek'' 42 (Some ''alice''), SyncGoMsg 42]
   \<and> map_option isPlaying (map_option (deliver (SyncGoMsg 42)) (advance 2 100 seek_responder))
        = Some True
   \<and> map_option syncState (map_option (deliver (SyncGoMsg 42)) (advance 2 100 seek_responder))
        = Some Playing
   \<and> map_option player_calls (map_option (deliver (SyncGoMsg 42)) (advance 2 100 seek_responder))
        = Some [Pause, SeekTo 42, Play]"
  by (simp add: eng_defs peer_defs Let_def eval_nat_numeral)

text \<open>
  Claim C2 as amended: on a foreign sync-request with the lock free and a player
  mounted, the responder takes the lock, sets the remote-echo flag, pauses, seeks to
  the requested time and arms the readiness check; while not ready the check re-arms
  itself 50 ms later; once ready, for a request that is not a play request, it sends
  sync-ack, sets state \<open>paused\<close> and releases its lock without waiting for sync-go,
  committing no play at that point. The handshake goes on: the initiator of the seek,
  on a foreign sync-ack, broadcasts sync-go and commits play (state \<open>playing\<close>, lock
  released), and a peer that receives sync-go commits play.
\<close>

theorem seek_handshake_path:
  "(i \<noteq> myUserId s \<and> \<not> syncLock s \<and> getInternalPlayer s = Some pl \<longrightarrow>
      syncLock (onSyncRequest ty t i s) \<and> syncState (onSyncRequest ty t i s) = Syncing
      \<and> isRemoteAction (onSyncRequest ty t i s)
      \<and> player_calls (onSyncRequest ty t i s)
           = player_calls s @ (if hasPause pl then [Pause] else []) @ [SeekTo t]
      \<and> timers (onSyncRequest ty t i s)
           = timers s @ [(nextTimerId s, now s + 100, CbCheckReady ty t)]
      \<and> outbox (onSyncRequest ty t i s) = outbox s
      \<and> isPlaying (onSyncRequest ty t i s) = isPlaying s)
   \<and> (\<not> isPlayerReady s \<longrightarrow> checkReady ty t s = setTimeout (CbCheckReady ty t) 50 s)
   \<and> (isPlayerReady s \<and> channel s \<and> ty \<noteq> ''play'' \<longrightarrow>
      outbox (checkReady ty t s) = outbox s @ [SyncAckMsg t (myUserId s)]
      \<and> \<not> syncLock (checkReady ty t s) \<and> syncState (checkReady ty t s) = Paused
      \<and> isPlaying (checkReady ty t s) = isPlaying s
      \<and> player_calls (checkReady ty t s) = player_calls s
      \<and> timers (checkReady ty t s) = timers s)
   \<and> (\<not> syncLock s \<and> \<not> isRemoteAction s \<and> channel s \<and> r \<noteq> myUserId s \<longrightarrow>
      outbox (onSyncAck t' r (requestSeek t s))
          = outbox s @ [SyncRequestMsg ''seek'' t (myUserId s), SyncGoMsg t]
      \<and> isPlaying (onSyncAck t' r (requestSeek t s))
      \<and> syncState (onSyncAck t' r (requestSeek t s)) = Playing
      \<and> \<not> syncLock (onSyncAck t' r (requestSeek t s))
      \<and> pendingSync (onSyncAck t' r (requestSeek t s)) = None)
   \<and> isPlaying (onSyncGo t s) \<and> syncState (onSyncGo t s) = Playing
   \<and> \<not> syncLock (onSyncGo t s)"
  using responder_accepts [of i s pl ty t] responder_polls [of s ty t]
    responder_seek_done [of s ty t] initiator_seek_ack [of s r t' t]
  by (simp add: onSyncGo_def executePlay_def Let_def)

theorem seek_handshake_path_witness:
  "Some ''alice'' \<noteq> myUserId (fresh_peer ''bob'') \<and> \<not> syncLock (fresh_peer ''bob'')
   \<and> getInternalPlayer (fresh_peer ''bob'') = Some video_element
   \<and> isPlayerReady seek_responder \<and> channel seek_responder
   \<and> \<not> isPlayerReady (seek_responder\<lparr>playerRef := Some \<lparr>currentTime = 42,
          internal = Some (video_element\<lparr>readyState := Some 1\<rparr>), calls = []\<rparr>\<rparr>)
   \<and> \<not> isRemoteAction (fresh_peer ''alice'')
   \<and> syncLock seek_responder \<and> syncState seek_responder = Syncing
   \<and> isRemoteAction seek_responder
   \<and> player_calls seek_responder = [Pause, SeekTo 42]
   \<and> timers seek_responder = [(1, 100, CbCheckReady ''seek'' 42)]
   \<and> outbox (checkReady ''seek'' 42 seek_responder) = [SyncAckMsg 42 (Some ''bob'')]
   \<and> \<not> syncLock (checkReady ''seek'' 42 seek_responder)
   \<and> syncState (checkReady ''seek'' 42 seek_responder) = Paused
   \<and> \<not> isPlaying (checkReady ''seek'' 42 seek_responder)
   \<and> timers (checkReady ''seek'' 42
        (seek_responder\<lparr>playerRef := Some \<lparr>currentTime = 42,
          internal = Some (video_element\<lparr>readyState := Some 1\<rparr>), calls = []\<rparr>\<rparr>))
       = [(1, 100, CbCheckReady ''seek'' 42), (2, 50, CbCheckReady ''seek'' 42)]
   \<and> isPlaying (onSyncAck 42 (Some ''bob'') seek_initiator)
   \<and> syncState (onSyncAck 42 (Some ''bob'') seek_initiator) = Playing
   \<and> outbox (onSyncAck 42 (Some ''bob'') seek_initiator)
       = [SyncRequestMsg ''seek'' 42 (Some ''alice''), SyncGoMsg 42]"
proof -
  let ?b = "fresh_peer ''bob''" and ?a = "fresh_peer ''alice''"
  let ?slow = "seek_responder\<lparr>playerRef := Some \<lparr>currentTime = 42,
          internal = Some (video_element\<lparr>readyState := Some 1\<rparr>), calls = []\<rparr>\<rparr>"
  have h: "Some ''alice'' \<noteq> myUserId ?b" "\<not> syncLock ?b" "getInternalPlayer ?b = Some video_element"
    "isPlayerReady seek_responder" "channel seek_responder" "\<not> isPlayerReady ?slow"
    "\<not> isRemoteAction ?a"
    and h': "\<not> syncLock ?a" "channel ?a" "Some ''bob'' \<noteq> myUserId ?a"
    by (simp_all add: eng_defs peer_defs Let_def)
  have e: "onSyncRequest ''seek'' 42 (Some ''alice'') ?b = seek_responder"
    by (simp add: seek_responder_def deliver_def fresh_peer_def)
  have g: "player_calls ?b = []" "timers ?b = []" "nextTimerId ?b = 1" "now ?b = 0"
    "hasPause video_element" "myUserId ?a = Some ''alice''" "outbox ?a = []"
    "outbox seek_responder = []" "isPlaying seek_responder = False"
    "myUserId seek_responder = Some ''bob''"
    by (simp_all add: eng_defs peer_defs Let_def)
  have A: "syncLock seek_responder \<and> syncState seek_responder = Syncing
      \<and> isRemoteAction seek_responder \<and> player_calls seek_responder = [Pause, SeekTo 42]
      \<and> timers seek_responder = [(1, 100, CbCheckReady ''seek'' 42)]"
    using seek_handshake_path [where s = ?b and i = "Some ''alice''" and pl = video_element
        and ty = "''seek''" and t = 42 and r = "Some ''alice''" and t' = 42] h(1-3)
    by (simp add: e g)
  have B: "outbox (checkReady ''seek'' 42 seek_responder) = [SyncAckMsg 42 (Some ''bob'')]
      \<and> \<not> syncLock (checkReady ''seek'' 42 seek_responder)
      \<and> syncState (checkReady ''seek'' 42 seek_responder) = Paused
      \<and> \<not> isPlaying (checkReady ''seek'' 42 seek_responder)"
    using seek_handshake_path [where s = seek_responder and i = "Some ''alice''" and pl = video_element
        and ty = "''seek''" and t = 42 and r = "Some ''alice''" and t' = 42] h(4,5)
    by (simp add: g)
  have C: "checkReady ''seek'' 42 ?slow = setTimeout (CbCheckReady ''seek'' 42) 50 ?slow"
    using seek_handshake_path [where s = ?slow and i = "Some ''alice''" and pl = video_element
        and ty = "''seek''" and t = 42 and r = "Some ''alice''" and t' = 42] h(6)
    by blast
  have C': "timers (setTimeout (CbCheckReady ''seek'' 42) 50 ?slow)
       = [(1, 100, CbCheckReady ''seek'' 42), (2, 50, CbCheckReady ''seek'' 42)]"
    by (simp add: eng_defs peer_defs Let_def)
  have D: "isPlaying (onSyncAck 42 (Some ''bob'') seek_initiator)
      \<and> syncState (onSyncAck 42 (Some ''bob'') seek_initiator) = Playing
      \<and> outbox (onSyncAck 42 (Some ''bob'') seek_initiator)
          = [SyncRequestMsg ''seek'' 42 (Some ''alice''), SyncGoMsg 42]"
    using seek_handshake_path [where s = ?a and i = "Some ''alice''" and pl = video_element
        and ty = "''seek''" and t = 42 and r = "Some ''bob''" and t' = 42] h(7) h'
    by (simp add: g seek_initiator_def)
  show ?thesis
    using h A B D C' unfolding C [symmetric] by blast
qed

subsection \<open>C3: the drift policy\<close>

text \<open>
  Claim C3 puts the whole closed band from 0.3 s to 1.5 s under the rate nudge, as the
  project's README does (minor drifts, 300 ms to 1.5 s, are corrected with a playback
  rate adjustment). The handler leaves the lower end out: its first test lets a
  difference of exactly 0.3 pass, and its last test asks for more than 0.3 again.
  Alice, playing at position 0 with the lock free, receives a time check that is 0.3 s
  ahead of her: the computed difference equals the threshold, and the handler returns
  without touching the playback rate or arming a timer. A time check 0.5 s ahead gets
  the nudge to 1.05 and the reset timer due 1500 ms later.
\<close>

theorem soft_band_boundary_no_rate_change:
  "syncState playing_peer = Playing \<and> \<not> syncLock playing_peer
   \<and> getCurrentTime playing_peer = 0
   \<and> player_rate playing_peer = Some 1
   \<and> \<bar>js_sub MICRO_DRIFT_THRESHOLD (getCurrentTime playing_peer)\<bar> = MICRO_DRIFT_THRESHOLD
   \<and> MICRO_DRIFT_THRESHOLD \<le> SOFT_SYNC_THRESHOLD
   \<and> boundary_check = playing_peer
   \<and> player_rate boundary_check = Some 1
   \<and> player_calls boundary_check = []
   \<and> timers boundary_check = []
   \<and> player_rate inside_check = Some (binary64 1.05)
   \<and> player_calls inside_check = [SetRate (binary64 1.05)]
   \<and> timers inside_check = [(1, 1500, CbResetRate)]"
proof -
  have p: "syncState playing_peer = Playing" "\<not> syncLock playing_peer"
    "getCurrentTime playing_peer = 0" "player_rate playing_peer = Some 1"
    "player_calls playing_peer = []" "timers playing_peer = []"
    by (simp_all add: eng_defs peer_defs)
  have d: "\<bar>js_sub MICRO_DRIFT_THRESHOLD (getCurrentTime playing_peer)\<bar> = MICRO_DRIFT_THRESHOLD"
    by (simp add: p number_values)
  have s: "MICRO_DRIFT_THRESHOLD \<le> SOFT_SYNC_THRESHOLD"
    using HARD_value by (simp add: MICRO_value SOFT_SYNC_THRESHOLD_def HARD_SYNC_THRESHOLD_def)
  have b: "boundary_check = playing_peer"
    by (simp add: boundary_check_def eng_defs peer_defs number_values Let_def)
  have i: "player_rate inside_check = Some (binary64 1.05)"
    "player_calls inside_check = [SetRate (binary64 1.05)]"
    "timers inside_check = [(1, 1500, CbResetRate)]"
    by (simp_all add: inside_check_def eng_defs peer_defs number_values Let_def)
  show ?thesis using p d s i unfolding b by simp
qed

subsection \<open>C4: URL change\<close>









subsection \<open>C5: the remote-echo guard\<close>

text \<open>With the flag set, each of the three player handlers only clears it.\<close>

lemma remote_echo_guard:
  assumes "isRemoteAction s"
  shows "handlePlayerPlay cl s = s\<lparr>isRemoteAction := False\<rparr>
       \<and> handlePlayerPause s = s\<lparr>isRemoteAction := False\<rparr>
       \<and> handlePlayerSeek t s = s\<lparr>isRemoteAction := False\<rparr>"
  using assms by (simp add: handlePlayerPlay_def handlePlayerPause_def handlePlayerSeek_def)

text \<open>
  Claim C5 concludes that a remotely applied command is never broadcast back to the
  peer. The engine sets the flag before it pauses or seeks on behalf of the peer (on a
  sync request, on a remote pause and on a hard seek) but not before it plays:
  \<open>executePlay\<close> calls \<open>play()\<close> and leaves the flag alone. Alice, paused with a
  video loaded, flag clear and lock free, receives a sync-go: \<open>play()\<close> is called and
  the flag is still clear. Her player reports the play; neither the wrapper of the
  player component nor the handler finds the flag, so the debounce is armed, and
  200 ms later a sync request for play goes out and the lock is taken.
\<close>

theorem remote_play_is_rebroadcast:
  "\<not> isRemoteAction paused_viewer \<and> \<not> syncLock paused_viewer
   \<and> outbox paused_viewer = []
   \<and> player_calls go_received = [Play]
   \<and> isPlaying go_received \<and> syncState go_received = Playing
   \<and> \<not> isRemoteAction go_received \<and> \<not> syncLock go_received
   \<and> outbox go_received = [StateRequestMsg (Some ''alice'')]
   \<and> timers go_reported = [(1, 200, CbDebouncePlay (render go_received))]
   \<and> map_option outbox (advance 2 200 go_reported)
        = Some [StateRequestMsg (Some ''alice''), SyncRequestMsg ''play'' 0 (Some ''alice'')]
   \<and> map_option syncLock (advance 2 200 go_reported) = Some True
   \<and> map_option syncState (advance 2 200 go_reported) = Some Requesting"
  by (simp add: run_defs eng_defs peer_defs Let_def eval_nat_numeral)

subsection \<open>C7: state bootstrap of a late joiner\<close>

text \<open>
  Claim C7 says that a late joiner takes over the state of its peer without invoking the
  play handshake. On the code the joiner starts one. Alice connects and asks for the
  state; Bob, playing at 42, answers with his URL, \<open>isPlaying\<close> true and time 42.
  Alice adopts the URL, issues the seek to 42 on the player she has, and takes over
  \<open>isPlaying\<close> and state \<open>playing\<close>, with the remote-echo flag clear and the lock
  free. The render that follows mounts a new player for the new URL, at position 0,
  and runs the binding effect again, which asks for the state once more. When the new
  player starts and reports the play, nothing marks it as remote: the debounce is
  armed, and 200 ms later Alice broadcasts a sync request for play at position 0 and
  holds the lock in state \<open>requesting\<close>.
\<close>

theorem bootstrap_starts_play_handshake:
  "outbox joiner_asks = [StateRequestMsg (Some ''alice'')]
   \<and> host_answer = [StateResponseMsg ''http://v/a.mp4'' True 42 (Some ''bob'') (Some ''alice'')]
   \<and> url joiner_adopts = ''http://v/a.mp4''
   \<and> isPlaying joiner_adopts \<and> syncState joiner_adopts = Playing
   \<and> \<not> isRemoteAction joiner_adopts \<and> \<not> syncLock joiner_adopts
   \<and> player_calls joiner_adopts = [SeekTo 42]
   \<and> getCurrentTime joiner_adopts = 0
   \<and> outbox joiner_adopts = [StateRequestMsg (Some ''alice''), StateRequestMsg (Some ''alice'')]
   \<and> timers joiner_plays = [(1, 200, CbDebouncePlay (render joiner_adopts))]
   \<and> map_option outbox (advance 2 200 joiner_plays)
        = Some [StateRequestMsg (Some ''alice''), StateRequestMsg (Some ''alice''),
                SyncRequestMsg ''play'' 0 (Some ''alice'')]
   \<and> map_option syncLock (advance 2 200 joiner_plays) = Some True
   \<and> map_option syncState (advance 2 200 joiner_plays) = Some Requesting
   \<and> map_option pendingSync (advance 2 200 joiner_plays) = Some (Some (0, ''alice''))"
  by (simp add: run_defs eng_defs peer_defs Let_def eval_nat_numeral)

subsection \<open>C9: the lock during a handshake\<close>

lemma lock_ignored_when_held:
  "syncLock s \<Longrightarrow> requestPlay cl s = s \<and> requestSeek t s = s \<and> onSyncRequest ty t i s = s"
  by (simp add: requestPlay_def requestSeek_def onSyncRequest_def)

lemma requestPlay_takes_lock:
  "\<not> syncLock s \<Longrightarrow>
     syncLock (requestPlay cl s) \<and> syncState (requestPlay cl s) = Requesting
     \<and> pendingSync (requestPlay cl s) = Some (getCurrentTime s, self_or (myUserId s))"
  by (simp add: requestPlay_def trigger_def setTimeout_def Let_def)

lemma requestSeek_takes_lock:
  "\<not> syncLock s \<Longrightarrow> \<not> isRemoteAction s \<Longrightarrow>
     syncLock (requestSeek t s) \<and> syncState (requestSeek t s) = Syncing
     \<and> pendingSync (requestSeek t s) = Some (t, self_or (myUserId s))"
  by (simp add: requestSeek_def trigger_def)

lemma requestSeek_consumes_echo:
  "\<not> syncLock s \<Longrightarrow> isRemoteAction s \<Longrightarrow> requestSeek t s = s\<lparr>isRemoteAction := False\<rparr>"
  by (simp add: requestSeek_def)

lemma onSyncRequest_takes_lock:
  "\<not> syncLock s \<Longrightarrow> i \<noteq> myUserId s \<Longrightarrow>
     syncLock (onSyncRequest ty t i s) \<and> syncState (onSyncRequest ty t i s) = Syncing
     \<and> pendingSync (onSyncRequest ty t i s) = pendingSync s"
  by (simp add: onSyncRequest_def setTimeout_def seekTo_def pause_player_def log_call_def
      getInternalPlayer_def Let_def split: option.splits)

lemma onSyncRequest_own: "onSyncRequest ty t (myUserId s) s = s"
  by (simp add: onSyncRequest_def)

lemma checkReady_play_keeps_lock:
  "syncLock (checkReady ''play'' t s) = syncLock s"
  by (simp add: checkReady_def trigger_def setTimeout_def Let_def)

lemma checkReady_seek_releases:
  "isPlayerReady s \<Longrightarrow> ty \<noteq> ''play'' \<Longrightarrow>
     \<not> syncLock (checkReady ty t s) \<and> syncState (checkReady ty t s) = Paused"
  by (simp add: checkReady_def trigger_def Let_def)

lemma lock_untouched:
  "syncLock (onPause t s) = syncLock s \<and> syncState (onPause t s) = Paused
   \<and> syncLock (onUrl u s) = syncLock s \<and> syncState (onUrl u s) = Idle
   \<and> syncLock (handleUrlChange u s) = syncLock s \<and> syncState (handleUrlChange u s) = Idle
   \<and> syncLock (onStateResponse cl u p t r tg s) = syncLock s"
  by (simp add: onPause_def onUrl_def handleUrlChange_def onStateResponse_def trigger_def
      pause_player_def log_call_def seekTo_def Let_def split: option.splits)

lemma state_response_state:
  "tg = myUserId s \<Longrightarrow>
     syncState (onStateResponse cl u p t r tg s) = (if p then Playing else Paused)"
  by (simp add: onStateResponse_def Let_def)

text \<open>
  Claim C9 says that the sync lock is held from issuing a request until a terminal state
  is reached. On the code it need not be: Alice, playing, hard-seeks on a time check,
  which arms the unconditional 500 ms release; a sync-go then commits play and frees
  the lock; she requests play (lock taken, state \<open>requesting\<close>, target pending); when
  the release timer fires the lock is free again although the state is still
  \<open>requesting\<close> and the target still pending.
\<close>

theorem lock_released_mid_handshake:
  "syncLock racing_request
   \<and> syncState racing_request = Requesting
   \<and> pendingSync racing_request = Some (2, ''alice'')
   \<and> timers racing_request = [(1, 500, CbReleaseLock), (2, 3000, CbAckTimeout Playing)]
   \<and> map_option syncLock (advance 2 500 racing_request) = Some False
   \<and> map_option syncState (advance 2 500 racing_request) = Some Requesting
   \<and> map_option pendingSync (advance 2 500 racing_request) = Some (Some (2, ''alice''))
   \<and> map_option isPlaying (advance 2 500 racing_request) = Some True"
  by (simp add: eng_defs peer_defs number_values Let_def eval_nat_numeral)

text \<open>
  Claim C9 as amended: while the sync lock is held, a local play request, a local seek
  request and an inbound sync request change nothing, so the pending target is not
  replaced. With the lock free, a local play request takes the lock, enters
  \<open>requesting\<close> and sets the pending target; a local seek request does the same with
  \<open>syncing\<close> if the remote-echo flag is clear, and only clears the flag if it is set;
  a sync request of another peer takes the lock and enters \<open>syncing\<close> without
  touching the pending target, and one carrying the local identity is discarded. The
  responder's acknowledgement step for a play request leaves the lock as it is. The
  lock is released when play is committed, which also clears the pending target and
  sets \<open>playing\<close>, and when the responder, once ready, finishes a request that is not
  a play request, in state \<open>paused\<close>. Beyond that the lock is not tied to the session
  state: the hard-seek settle timer clears it unconditionally, and a remote pause
  (\<open>paused\<close>), a received or local URL change (\<open>idle\<close>) and a state response
  addressed to this peer (\<open>playing\<close> or \<open>paused\<close>) set the session state without
  touching the lock.
\<close>

theorem lock_discipline_steps:
  "(syncLock s \<longrightarrow> requestPlay cl s = s \<and> requestSeek t s = s \<and> onSyncRequest ty t i s = s)
   \<and> (\<not> syncLock s \<longrightarrow>
        syncLock (requestPlay cl s) \<and> syncState (requestPlay cl s) = Requesting
        \<and> pendingSync (requestPlay cl s) = Some (getCurrentTime s, self_or (myUserId s)))
   \<and> (\<not> syncLock s \<and> \<not> isRemoteAction s \<longrightarrow>
        syncLock (requestSeek t s) \<and> syncState (requestSeek t s) = Syncing
        \<and> pendingSync (requestSeek t s) = Some (t, self_or (myUserId s)))
   \<and> (\<not> syncLock s \<and> isRemoteAction s \<longrightarrow> requestSeek t s = s\<lparr>isRemoteAction := False\<rparr>)
   \<and> (\<not> syncLock s \<and> i \<noteq> myUserId s \<longrightarrow>
        syncLock (onSyncRequest ty t i s) \<and> syncState (onSyncRequest ty t i s) = Syncing
        \<and> pendingSync (onSyncRequest ty t i s) = pendingSync s)
   \<and> onSyncRequest ty t (myUserId s) s = s
   \<and> syncLock (checkReady ''play'' t s) = syncLock s
   \<and> (isPlayerReady s \<and> ty \<noteq> ''play'' \<longrightarrow>
        \<not> syncLock (checkReady ty t s) \<and> syncState (checkReady ty t s) = Paused)
   \<and> \<not> syncLock (executePlay s) \<and> pendingSync (executePlay s) = None
   \<and> syncState (executePlay s) = Playing
   \<and> \<not> syncLock (fire CbReleaseLock s)
   \<and> syncLock (onPause t s) = syncLock s \<and> syncState (onPause t s) = Paused
   \<and> syncLock (onUrl u s) = syncLock s \<and> syncState (onUrl u s) = Idle
   \<and> syncLock (handleUrlChange u s) = syncLock s \<and> syncState (handleUrlChange u s) = Idle
   \<and> syncLock (onStateResponse cl u p t r tg s) = syncLock s
   \<and> (tg = myUserId s \<longrightarrow>
        syncState (onStateResponse cl u p t r tg s) = (if p then Playing else Paused))"
  using lock_ignored_when_held [of s cl t ty i] requestPlay_takes_lock [of s cl]
    requestSeek_takes_lock [of s t] requestSeek_consumes_echo [of s t]
    onSyncRequest_takes_lock [of s i ty t] onSyncRequest_own [of ty t s]
    checkReady_play_keeps_lock [of t s] checkReady_seek_releases [of s ty t]
    lock_untouched [of t s u cl p r tg] state_response_state [of tg s cl u p t r]
  by (simp add: executePlay_def fire_def Let_def)


theorem lock_discipline_steps_witness:
  "syncLock lone_request \<and> \<not> syncLock (fresh_peer ''alice'')
   \<and> \<not> isRemoteAction (fresh_peer ''alice'')
   \<and> Some ''bob'' \<noteq> myUserId (fresh_peer ''alice'')
   \<and> isPlayerReady (fresh_peer ''alice'')
   \<and> \<not> syncLock ((fresh_peer ''alice'')\<lparr>isRemoteAction := True\<rparr>)
   \<and> isRemoteAction ((fresh_peer ''alice'')\<lparr>isRemoteAction := True\<rparr>)
   \<and> requestPlay (render lone_request) lone_request = lone_request
   \<and> onSyncRequest ''seek'' 7 (Some ''bob'') lone_request = lone_request
   \<and> pendingSync (requestPlay (render (fresh_peer ''alice'')) (fresh_peer ''alice'')) = Some (0, ''alice'')
   \<and> pendingSync (requestSeek 7 (fresh_peer ''alice'')) = Some (7, ''alice'')
   \<and> requestSeek 7 ((fresh_peer ''alice'')\<lparr>isRemoteAction := True\<rparr>) = fresh_peer ''alice''
   \<and> syncLock (onSyncRequest ''seek'' 7 (Some ''bob'') (fresh_peer ''alice''))
   \<and> \<not> syncLock (checkReady ''seek'' 7 (fresh_peer ''alice''))
   \<and> syncState (checkReady ''seek'' 7 (fresh_peer ''alice'')) = Paused
   \<and> \<not> syncLock (executePlay lone_request)
   \<and> syncLock (onPause 7 lone_request)
   \<and> syncState (onPause 7 lone_request) = Paused
   \<and> syncState (onStateResponse (render lone_request) [] False 7 (Some ''bob'') (Some ''alice'')
        lone_request) = Paused"
proof -
  let ?e = "(fresh_peer ''alice'')\<lparr>isRemoteAction := True\<rparr>"
  have f: "syncLock lone_request" "\<not> syncLock (fresh_peer ''alice'')"
    "\<not> isRemoteAction (fresh_peer ''alice'')" "Some ''bob'' \<noteq> myUserId (fresh_peer ''alice'')"
    "isPlayerReady (fresh_peer ''alice'')" "\<not> syncLock ?e" "isRemoteAction ?e"
    by (simp_all add: eng_defs peer_defs Let_def)
  have g: "getCurrentTime (fresh_peer ''alice'') = 0" "self_or (myUserId (fresh_peer ''alice'')) = ''alice''"
    "?e\<lparr>isRemoteAction := False\<rparr> = fresh_peer ''alice''" "myUserId lone_request = Some ''alice''"
    by (simp_all add: eng_defs peer_defs Let_def)
  show ?thesis
    using f
      lock_discipline_steps [where s = lone_request and cl = "render lone_request" and t = 7
        and ty = "''seek''" and i = "Some ''bob''" and tg = "Some ''alice''" and p = False
        and u = "[]" and r = "Some ''bob''"]
      lock_discipline_steps [where s = "fresh_peer ''alice''" and cl = "render (fresh_peer ''alice'')"
        and t = 7 and ty = "''seek''" and i = "Some ''bob''" and tg = "Some ''alice''"
        and p = False and u = "[]" and r = "Some ''bob''"]
      lock_discipline_steps [where s = ?e and cl = "render (fresh_peer ''alice'')"
        and t = 7 and ty = "''seek''" and i = "Some ''bob''" and tg = "Some ''alice''"
        and p = False and u = "[]" and r = "Some ''bob''"]
    by (simp add: g)
qed

subsection \<open>C8: a received voice payload\<close>

lemma voice_note_pauses:
  "\<not> vs_playing (voice_note b ok r) \<and> sr_volume (voice_note b ok r) = sr_volume r"
  by (simp add: voice_note_def Let_def split: option.splits)

lemma voice_note_flags:
  "audioRef r \<noteq> None \<Longrightarrow> isVoiceInterruption (voice_note b True r)"
  by (auto simp: voice_note_def Let_def split: option.splits)

lemma audio_end_resumes:
  "isVoiceInterruption r \<Longrightarrow>
     vs_playing (handleAudioEnded r) \<and> \<not> isVoiceInterruption (handleAudioEnded r)"
  by (simp add: handleAudioEnded_def)

lemma duck_on_receipt:
  "talkieAudioRef p \<noteq> None \<Longrightarrow>
     volume (audio_received b True p) = DUCK_VOLUME
     \<and> baseVolume (audio_received b True p) = baseVolume p"
  by (auto simp: audio_received_def handleAudioReceived_def Let_def split: option.splits)

lemma restore_on_end:
  "talkieAudioRef p \<noteq> None \<Longrightarrow> volume p = baseVolume p \<Longrightarrow>
     volume (talkie_ended (audio_received b True p)) = baseVolume p
     \<and> baseVolume (talkie_ended (audio_received b True p)) = baseVolume p"
  by (auto simp: audio_received_def handleAudioReceived_def talkie_ended_def Let_def
      split: option.splits)

lemma engine_untouched:
  "sync (audio_received b ok p) = sync p \<and> sync (talkie_ended p) = sync p"
  by (simp add: audio_received_def handleAudioReceived_def talkie_ended_def Let_def
      split: option.splits)

text \<open>
  Claim C8 says that a received voice payload both pauses playback and ducks the volume,
  and that the volume returns to the user-configured level when the message ends. On
  the code no page does both. The Pusher-based page, playing, receives a payload: the
  volume drops to the ducked level but the engine keeps playing and no call reaches
  the player. The socket-based page leaves its volume where it was. And on the
  Pusher-based page the volume does not always return to the user-configured level:
  when a second payload arrives while the first is still audible, the volume stays
  at the ducked level after the message ends, with the user-configured level
  unchanged; and when the user sets the volume to 0.5 while the message is audible,
  the end of the message puts the volume back to what it was at receipt.
\<close>

theorem voice_payload_neither_pauses_nor_restores:
  "isPlaying (sync watching_page)
   \<and> isPlaying (sync (audio_received 1 True watching_page))
   \<and> player_calls (sync (audio_received 1 True watching_page)) = []
   \<and> volume (audio_received 1 True watching_page) = DUCK_VOLUME
   \<and> sr_volume (voice_note 1 True watching_room) = sr_volume watching_room
   \<and> baseVolume watching_page = binary64 0.8
   \<and> DUCK_VOLUME < binary64 0.8
   \<and> volume (talkie_ended (audio_received 2 True (audio_received 1 True watching_page)))
        = DUCK_VOLUME
   \<and> baseVolume (talkie_ended (audio_received 2 True (audio_received 1 True watching_page)))
        = binary64 0.8
   \<and> volume (talkie_ended (handleVolumeChange 0.5 (audio_received 1 True watching_page)))
        = binary64 0.8
   \<and> baseVolume (talkie_ended (handleVolumeChange 0.5 (audio_received 1 True watching_page)))
        = 0.5
   \<and> 0.5 < binary64 0.8"
proof -
  have v: "DUCK_VOLUME < binary64 0.8" "0.5 < binary64 0.8"
    unfolding DUCK_value binary64_0_8 by simp_all
  have r: "isPlaying (sync watching_page)"
    "isPlaying (sync (audio_received 1 True watching_page))"
    "player_calls (sync (audio_received 1 True watching_page)) = []"
    "volume (audio_received 1 True watching_page) = DUCK_VOLUME"
    "sr_volume (voice_note 1 True watching_room) = sr_volume watching_room"
    "baseVolume watching_page = binary64 0.8"
    "volume (talkie_ended (audio_received 2 True (audio_received 1 True watching_page)))
        = DUCK_VOLUME"
    "baseVolume (talkie_ended (audio_received 2 True (audio_received 1 True watching_page)))
        = binary64 0.8"
    "volume (talkie_ended (handleVolumeChange 0.5 (audio_received 1 True watching_page)))
        = binary64 0.8"
    "baseVolume (talkie_ended (handleVolumeChange 0.5 (audio_received 1 True watching_page)))
        = 0.5"
    by (simp_all add: audio_received_def handleAudioReceived_def talkie_ended_def voice_note_def
        handleVolumeChange_def watching_page_def watching_room_def Let_def eng_defs peer_defs)
  show ?thesis using v r by blast
qed

text \<open>
  Claim C8 as amended: on the socket-based page a received voice payload sets
  \<open>playing\<close> to false at once and leaves the volume alone; when the audio element
  exists and starts playing the payload, the interruption flag is set; and the end of
  playback, arriving while that flag is set, sets \<open>playing\<close> back to true and clears
  the flag. On the Pusher-based page a received payload and the end of a message leave
  the synchronization engine untouched. When the audio element of that page exists and
  starts playing the payload, the video volume is at the ducked level and the
  user-configured level is unchanged; if moreover the volume was at the
  user-configured level when the payload arrived and the message ends as the next
  event on the page, the volume is back at the user-configured level.
\<close>

theorem voice_pause_resume_and_duck:
  "\<not> vs_playing (voice_note b ok r)
   \<and> sr_volume (voice_note b ok r) = sr_volume r
   \<and> (audioRef r \<noteq> None \<longrightarrow> isVoiceInterruption (voice_note b True r))
   \<and> (isVoiceInterruption r \<longrightarrow>
        vs_playing (handleAudioEnded r) \<and> \<not> isVoiceInterruption (handleAudioEnded r))
   \<and> sync (audio_received b ok p) = sync p
   \<and> sync (talkie_ended p) = sync p
   \<and> (talkieAudioRef p \<noteq> None \<longrightarrow>
        volume (audio_received b True p) = DUCK_VOLUME
        \<and> baseVolume (audio_received b True p) = baseVolume p)
   \<and> (talkieAudioRef p \<noteq> None \<and> volume p = baseVolume p \<longrightarrow>
        volume (talkie_ended (audio_received b True p)) = baseVolume p
        \<and> baseVolume (talkie_ended (audio_received b True p)) = baseVolume p)"
  using voice_note_pauses [of b ok r] voice_note_flags [of r b] audio_end_resumes [of r]
    duck_on_receipt [of p b] restore_on_end [of p b] engine_untouched [of b ok p]
  by blast

theorem voice_pause_resume_and_duck_witness:
  "audioRef watching_room \<noteq> None \<and> talkieAudioRef watching_page \<noteq> None
   \<and> volume watching_page = baseVolume watching_page
   \<and> vs_playing watching_room
   \<and> isVoiceInterruption (voice_note 1 True watching_room)
   \<and> \<not> vs_playing (voice_note 1 True watching_room)
   \<and> vs_playing (handleAudioEnded (voice_note 1 True watching_room))
   \<and> volume (audio_received 1 True watching_page) = DUCK_VOLUME
   \<and> volume (talkie_ended (audio_received 1 True watching_page)) = binary64 0.8"
proof -
  have h: "audioRef watching_room \<noteq> None" "talkieAudioRef watching_page \<noteq> None"
    "volume watching_page = baseVolume watching_page" "vs_playing watching_room"
    and g: "baseVolume watching_page = binary64 0.8"
    by (simp_all add: watching_room_def watching_page_def)
  have i: "isVoiceInterruption (voice_note 1 True watching_room)"
    using voice_pause_resume_and_duck [of 1 True watching_room watching_page] h by blast
  show ?thesis
    using h i voice_pause_resume_and_duck [of 1 True watching_room watching_page]
      voice_pause_resume_and_duck [of 1 True "voice_note 1 True watching_room" watching_page]
    by (simp add: g)
qed

end
